theory Spec2Isabelle
  imports Main "HOL-Library.Char_ord" "HOL-Library.List_Lexorder" "HOL-Library.Multiset"
begin

section \<open>Smart parking: the slot lease manager of application.py\<close>

text \<open>
  The embedding follows \<^verbatim>\<open>src/application.py\<close>: the handlers \<^verbatim>\<open>reserve_slot\<close>,
  \<^verbatim>\<open>my_bookings\<close>, \<^verbatim>\<open>slots_status\<close>, \<^verbatim>\<open>hardware_sensor\<close>, \<^verbatim>\<open>esp32_reserve_status\<close>
  and the start-up function \<^verbatim>\<open>init_slots\<close>.

  Modelling decisions.
  \<^item> An instant is an \<open>int\<close>: microseconds since the epoch (the resolution of Python's
    \<^verbatim>\<open>datetime\<close>). \<^verbatim>\<open>timedelta(minutes=10)\<close> is \<open>600000000\<close>, and
    \<^verbatim>\<open>int(td.total_seconds())\<close> is the whole number of seconds of \<open>td\<close>, truncated
    towards zero. The clock is the argument \<open>t\<close> of a handler.
  \<^item> A Python \<^verbatim>\<open>datetime\<close> value is its instant together with whether it carries a time
    zone. \<^verbatim>\<open>datetime.now(timezone.utc)\<close> is aware. The client is built as
    \<^verbatim>\<open>MongoClient(MONGO_ATLAS, **tls_params, serverSelectionTimeoutMS=5000)\<close>, without
    \<^verbatim>\<open>tz_aware\<close>, so a datetime read from a document is naive. Subtracting a naive and an
    aware datetime raises \<^verbatim>\<open>TypeError\<close>; a handler that raises answers with HTTP status 500.
  \<^item> A MongoDB collection is the list of its documents in natural (insertion) order.
    A document is a record whose optional fields are \<open>None\<close> when the key is absent or
    holds \<^verbatim>\<open>None\<close>; the query \<^verbatim>\<open>{"reserved_by": None}\<close> and \<^verbatim>\<open>dict.get\<close> treat the two
    alike. A time field of a document holds the instant that was written; the rounding of
    stored datetimes to whole milliseconds is not modelled.
  \<^item> The \<^verbatim>\<open>_id\<close> of a slot document is dropped by the projection \<^verbatim>\<open>{"_id": 0}\<close> of every
    read and is not modelled; a booking document is the pair of its \<^verbatim>\<open>_id\<close> and its fields.
  \<^item> A handler takes the state of the three collections and returns the new state with
    the HTTP status code and body. The constant keys of the bodies (\<^verbatim>\<open>success\<close>,
    \<^verbatim>\<open>message\<close>, \<^verbatim>\<open>auto_refresh\<close>, \<^verbatim>\<open>server_ip\<close>), the ISO rendering of the times
    and the decorative prefix of the error texts are left out.
\<close>

subsection \<open>Documents\<close>

record user =
  u_email :: string
  u_user_type :: string
  u_staff_id :: "string option"
  u_department :: "string option"
  u_is_active :: bool

record slot =
  slot_id :: string
  available :: "bool option"
  reserved_by :: "string option"
  staff_email :: "string option"
  department :: "string option"
  reservation_time :: "int option"
  last_updated :: "int option"
  hardware_occupied :: "bool option"
  last_sensor_update :: "int option"

record booking =
  b_staff_id :: "string option"
  b_staff_email :: string
  b_department :: "string option"
  b_slot_id :: string
  reserved_at :: int
  expires_at :: int

record state =
  users_collection :: "user list"
  slots_collection :: "slot list"
  bookings_collection :: "(nat \<times> booking) list"

subsection \<open>The collection operations the handlers call\<close>

text \<open>\<^verbatim>\<open>find_one(filter)\<close>: the first document that matches, or \<^verbatim>\<open>None\<close>.\<close>

fun find_one :: "('a \<Rightarrow> bool) \<Rightarrow> 'a list \<Rightarrow> 'a option" where
  "find_one p [] = None"
| "find_one p (d # ds) = (if p d then Some d else find_one p ds)"

text \<open>
  \<^verbatim>\<open>find_one_and_update(filter, {"$set": ...}, return_document=AFTER)\<close>: the first document
  that matches is replaced by its update and returned; \<^verbatim>\<open>None\<close> when none matches.
\<close>

fun find_one_and_update :: "('a \<Rightarrow> bool) \<Rightarrow> ('a \<Rightarrow> 'a) \<Rightarrow> 'a list \<Rightarrow> 'a list \<times> 'a option" where
  "find_one_and_update p u [] = ([], None)"
| "find_one_and_update p u (d # ds) =
     (if p d then (u d # ds, Some (u d))
      else (case find_one_and_update p u ds of (ds', r) \<Rightarrow> (d # ds', r)))"

text \<open>
  \<^verbatim>\<open>update_one(filter, {"$set": ...})\<close>: the first document that matches is replaced by
  its update. The second component is \<^verbatim>\<open>modified_count\<close>: 1 when a document matched and
  the update changed it, 0 otherwise.
\<close>

fun update_one :: "('a \<Rightarrow> bool) \<Rightarrow> ('a \<Rightarrow> 'a) \<Rightarrow> 'a list \<Rightarrow> 'a list \<times> nat" where
  "update_one p u [] = ([], 0)"
| "update_one p u (d # ds) =
     (if p d then (u d # ds, if u d = d then 0 else 1)
      else (case update_one p u ds of (ds', n) \<Rightarrow> (d # ds', n)))"

subsection \<open>Time and the countdown\<close>

datatype py_error = TypeError

text \<open>A \<^verbatim>\<open>datetime\<close>: its instant, and whether \<^verbatim>\<open>tzinfo\<close> is set.\<close>

datatype datetime = Datetime (micros: int) (tz_aware: bool)

text \<open>\<^verbatim>\<open>datetime.now(timezone.utc)\<close> at the instant \<open>t\<close>.\<close>

definition utc_now :: "int \<Rightarrow> datetime" where
  "utc_now t = Datetime t True"

text \<open>The value of a time field of a document returned by \<^verbatim>\<open>find\<close>: a naive datetime.\<close>

definition from_store :: "int \<Rightarrow> datetime" where
  "from_store t = Datetime t False"

text \<open>\<^verbatim>\<open>d + timedelta\<close> keeps the time zone of \<open>d\<close>.\<close>

definition plus_timedelta :: "datetime \<Rightarrow> int \<Rightarrow> datetime" where
  "plus_timedelta d td = Datetime (micros d + td) (tz_aware d)"

text \<open>
  \<^verbatim>\<open>a - b\<close> of two datetimes: the \<^verbatim>\<open>timedelta\<close> in microseconds, or \<^verbatim>\<open>TypeError\<close>
  ("can't subtract offset-naive and offset-aware datetimes").
\<close>

definition minus_datetime :: "datetime \<Rightarrow> datetime \<Rightarrow> py_error + int" where
  "minus_datetime a b =
     (if tz_aware a = tz_aware b then Inr (micros a - micros b) else Inl TypeError)"

text \<open>The body of a response: the JSON document, or the error page of an exception.\<close>

datatype 'a response = Server_error py_error | Json 'a

definition LEASE_TTL :: int where
  "LEASE_TTL = 600000000"

text \<open>\<^verbatim>\<open>int(td.total_seconds())\<close> of a \<^verbatim>\<open>timedelta\<close> of \<open>td\<close> microseconds.\<close>

definition total_seconds :: "int \<Rightarrow> int" where
  "total_seconds td = (if td < 0 then - ((- td) div 1000000) else td div 1000000)"

fun digits :: "nat \<Rightarrow> string" where
  "digits n = (if n < 10 then [''0123456789'' ! n]
               else digits (n div 10) @ [''0123456789'' ! (n mod 10)])"

declare digits.simps [simp del]

text \<open>The format \<^verbatim>\<open>{n:02d}\<close>: decimal, padded with zeros to a width of two, sign included.\<close>

definition fmt02d :: "int \<Rightarrow> string" where
  "fmt02d n =
     (if n < 0 then CHR ''-'' # digits (nat (- n))
      else if n < 10 then CHR ''0'' # digits (nat n)
      else digits (nat n))"

text \<open>\<^verbatim>\<open>f"{minutes:02d}:{seconds:02d}"\<close>\<close>

definition countdown_str :: "int \<Rightarrow> int \<Rightarrow> string" where
  "countdown_str minutes seconds = fmt02d minutes @ '':'' @ fmt02d seconds"

subsection \<open>\<^verbatim>\<open>init_slots\<close>\<close>

definition new_slot :: "string \<Rightarrow> slot" where
  "new_slot sid =
     \<lparr>slot_id = sid, available = Some True, reserved_by = None, staff_email = None,
      department = None, reservation_time = None, last_updated = None,
      hardware_occupied = None, last_sensor_update = None\<rparr>"

definition init_slots :: "state \<Rightarrow> state" where
  "init_slots st =
     (if length (slots_collection st) = 0
      then st\<lparr>slots_collection :=
                slots_collection st @ map (\<lambda>i. new_slot (''S'' @ digits i)) [1..<6]\<rparr>
      else st)"

subsection \<open>\<^verbatim>\<open>reserve_slot\<close>\<close>

datatype reserve_body =
    Reserve_error string
  | Reserve_ok (r_slot_id: string) (r_staff_id: "string option") (r_staff_email: string)
      (r_department: "string option") (r_reserved_at: int) (r_expires_at: int)
      (r_duration_minutes: nat)

definition claim_slot :: "string option \<Rightarrow> user \<Rightarrow> int \<Rightarrow> slot \<Rightarrow> slot" where
  "claim_slot sid usr now d =
     d\<lparr>available := Some False, reserved_by := sid, staff_email := Some (u_email usr),
       department := u_department usr, reservation_time := Some now,
       last_updated := Some now\<rparr>"

definition is_free :: "slot \<Rightarrow> bool" where
  "is_free d \<longleftrightarrow> available d = Some True \<and> reserved_by d = None"

definition reserve_slot :: "state \<Rightarrow> int \<Rightarrow> string option \<Rightarrow> state \<times> nat \<times> reserve_body" where
  "reserve_slot st now sid =
     (case find_one (\<lambda>u. u_staff_id u = sid \<and> u_user_type u = ''staff'' \<and> u_is_active u)
             (users_collection st) of
        None \<Rightarrow> (st, 403, Reserve_error ''Staff access only'')
      | Some usr \<Rightarrow>
          (case find_one_and_update is_free (claim_slot sid usr now) (slots_collection st) of
             (slots', None) \<Rightarrow>
               (st\<lparr>slots_collection := slots'\<rparr>, 404, Reserve_error ''No slots available'')
           | (slots', Some slt) \<Rightarrow>
               (let expires = now + LEASE_TTL;
                    bk = \<lparr>b_staff_id = sid, b_staff_email = u_email usr,
                          b_department = u_department usr, b_slot_id = slot_id slt,
                          reserved_at = now, expires_at = expires\<rparr>
                in (st\<lparr>slots_collection := slots',
                        bookings_collection :=
                          bookings_collection st @ [(length (bookings_collection st), bk)]\<rparr>,
                    201,
                    Reserve_ok (slot_id slt) sid (u_email usr) (u_department usr) now expires 10))))"

subsection \<open>\<^verbatim>\<open>my_bookings\<close>\<close>

record bookings_body =
  mb_staff_id :: string
  mb_bookings :: "booking list"
  total_bookings :: nat

text \<open>
  \<^verbatim>\<open>find({"staff_id": staff_id}, {"_id": 0}).sort("reserved_at", -1).limit(20)\<close>.
  The sort is descending; documents with equal keys keep their natural order.
\<close>

definition my_bookings :: "state \<Rightarrow> string \<Rightarrow> state \<times> nat \<times> bookings_body" where
  "my_bookings st sid =
     (let bookings =
            map snd (take 20 (sort_key (\<lambda>d. - reserved_at (snd d))
              (filter (\<lambda>d. b_staff_id (snd d) = Some sid) (bookings_collection st))))
      in (st, 200,
          \<lparr>mb_staff_id = sid, mb_bookings = bookings, total_bookings = length bookings\<rparr>))"

subsection \<open>\<^verbatim>\<open>slots_status\<close>\<close>

text \<open>
  An entry of the response is the slot dictionary that was read (\<open>doc\<close>), as the loop
  leaves it, with the keys the loop adds.
\<close>

record status_entry =
  doc :: slot
  status :: string
  time_left_min :: "int option"
  time_left_sec :: "int option"
  countdown :: "string option"
  entry_expires_at :: "int option"

record status_body =
  slots :: "status_entry list"
  total_slots :: nat
  total_available :: nat
  total_reserved :: nat
  timestamp :: int
  refresh_interval :: nat

text \<open>The \<^verbatim>\<open>$set\<close> of the auto-release.\<close>

definition release :: "slot \<Rightarrow> slot" where
  "release d =
     d\<lparr>available := Some True, reserved_by := None, staff_email := None,
       department := None, reservation_time := None\<rparr>"

text \<open>The backfill of the requester's data in the response, when the slot has no e-mail.\<close>

definition backfill :: "user list \<Rightarrow> slot \<Rightarrow> slot" where
  "backfill us s =
     (if staff_email s = None \<or> staff_email s = Some []
      then (case find_one (\<lambda>u. u_staff_id u = reserved_by s) us of
              None \<Rightarrow> s
            | Some usr \<Rightarrow> s\<lparr>staff_email := Some (u_email usr), department := u_department usr\<rparr>)
      else s)"

text \<open>
  The body of the loop: one slot of the list read, against the collection. The result is
  the collection after the step, with the entry of the slot or the exception raised.
  \<^verbatim>\<open>slot["reservation_time"]\<close> is the stored instant as the client returns it.
\<close>

definition status_of_slot :: "user list \<Rightarrow> datetime \<Rightarrow> slot \<Rightarrow> slot list \<Rightarrow> slot list \<times> (py_error + status_entry)" where
  "status_of_slot us now s store =
     (case reservation_time s of
        None \<Rightarrow>
          (store, Inr \<lparr>doc = s, status = ''AVAILABLE'', time_left_min = None,
                       time_left_sec = None, countdown = None, entry_expires_at = None\<rparr>)
      | Some t \<Rightarrow>
          (let expiry = plus_timedelta (from_store t) LEASE_TTL
           in case minus_datetime expiry now of
                Inl err \<Rightarrow> (store, Inl err)
              | Inr td \<Rightarrow>
                  (let secs = total_seconds td
                   in if secs > 0 then
                        (let minutes = secs div 60; seconds = secs mod 60
                         in (store, Inr \<lparr>doc = backfill us s, status = ''RESERVED'',
                                     time_left_min = Some minutes, time_left_sec = Some seconds,
                                     countdown = Some (countdown_str minutes seconds),
                                     entry_expires_at = Some (micros expiry)\<rparr>))
                      else
                        (fst (update_one (\<lambda>d. slot_id d = slot_id s) release store),
                         Inr \<lparr>doc = s\<lparr>reservation_time := None, reserved_by := None,
                                     staff_email := None, department := None\<rparr>,
                              status = ''AVAILABLE'', time_left_min = None, time_left_sec = None,
                              countdown = None, entry_expires_at = None\<rparr>))))"

text \<open>The loop stops at the first exception; what was written before it stays written.\<close>

fun status_loop :: "user list \<Rightarrow> datetime \<Rightarrow> slot list \<Rightarrow> slot list \<Rightarrow> slot list \<times> (py_error + status_entry list)" where
  "status_loop us now [] store = (store, Inr [])"
| "status_loop us now (s # ss) store =
     (case status_of_slot us now s store of
        (store1, Inl err) \<Rightarrow> (store1, Inl err)
      | (store1, Inr e) \<Rightarrow>
          (case status_loop us now ss store1 of
             (store2, Inl err) \<Rightarrow> (store2, Inl err)
           | (store2, Inr es) \<Rightarrow> (store2, Inr (e # es))))"

definition slots_status :: "state \<Rightarrow> int \<Rightarrow> state \<times> nat \<times> status_body response" where
  "slots_status st t =
     (case status_loop (users_collection st) (utc_now t)
             (sort_key slot_id (slots_collection st)) (slots_collection st) of
        (store', Inl err) \<Rightarrow> (st\<lparr>slots_collection := store'\<rparr>, 500, Server_error err)
      | (store', Inr es) \<Rightarrow>
          (st\<lparr>slots_collection := store'\<rparr>, 200,
           Json \<lparr>slots = es, total_slots = length es,
                 total_available = length (filter (\<lambda>e. status e = ''AVAILABLE'') es),
                 total_reserved = length (filter (\<lambda>e. status e = ''RESERVED'') es),
                 timestamp = t, refresh_interval = 1000\<rparr>))"

subsection \<open>\<^verbatim>\<open>hardware_sensor\<close>\<close>

datatype sensor_body =
    Sensor_error string
  | Sensor_ok (sensor_slot_id: string) (sensor_occupied: bool) (sensor_updated: bool)

definition sensor_set :: "bool \<Rightarrow> int \<Rightarrow> slot \<Rightarrow> slot" where
  "sensor_set occupied now d = d\<lparr>hardware_occupied := Some occupied, last_sensor_update := Some now\<rparr>"

text \<open>
  The request body gives \<^verbatim>\<open>slot_id\<close> (\<open>None\<close> when the key is missing) and \<^verbatim>\<open>occupied\<close>
  (\<open>None\<close> when the key is missing: the default is \<^verbatim>\<open>False\<close>).
\<close>

definition hardware_sensor :: "state \<Rightarrow> int \<Rightarrow> string option \<Rightarrow> bool option \<Rightarrow> state \<times> nat \<times> sensor_body" where
  "hardware_sensor st now sid_opt occupied_opt =
     (let occupied = (case occupied_opt of None \<Rightarrow> False | Some b \<Rightarrow> b)
      in case sid_opt of
           None \<Rightarrow> (st, 400, Sensor_error ''slot_id required'')
         | Some sid \<Rightarrow>
             if sid = [] then (st, 400, Sensor_error ''slot_id required'')
             else (case update_one (\<lambda>d. slot_id d = sid) (sensor_set occupied now)
                          (slots_collection st) of
                     (slots', n) \<Rightarrow>
                       (st\<lparr>slots_collection := slots'\<rparr>, 200, Sensor_ok sid occupied (n > 0))))"

subsection \<open>\<^verbatim>\<open>esp32_reserve_status\<close>\<close>

record esp32_slot =
  e_slot_id :: string
  e_available :: bool
  e_hardware_occupied :: bool
  e_status :: string
  e_reserved_by :: "string option"
  e_staff_email :: "string option"
  e_department :: "string option"
  e_time_left_min :: "int option"
  e_time_left_sec :: "int option"
  e_countdown :: "string option"
  led_color :: string
  buzzer :: bool

record esp32_body =
  e_timestamp :: int
  e_total_slots :: nat
  e_slots :: "esp32_slot list"
  refresh_rate :: nat

text \<open>
  The dictionary \<^verbatim>\<open>esp32_slot\<close> as created before the branch; the keys that a branch
  does not set are absent from the response (\<open>None\<close>, or the empty string for
  \<open>e_status\<close> and \<open>led_color\<close>, which every branch sets).
\<close>

definition esp32_base :: "slot \<Rightarrow> esp32_slot" where
  "esp32_base s =
     \<lparr>e_slot_id = slot_id s,
      e_available = (case available s of None \<Rightarrow> True | Some b \<Rightarrow> b),
      e_hardware_occupied = (case hardware_occupied s of None \<Rightarrow> False | Some b \<Rightarrow> b),
      e_status = [], e_reserved_by = None, e_staff_email = None, e_department = None,
      e_time_left_min = None, e_time_left_sec = None, e_countdown = None,
      led_color = [], buzzer = False\<rparr>"

definition esp32_of_slot :: "datetime \<Rightarrow> slot \<Rightarrow> slot list \<Rightarrow> slot list \<times> (py_error + esp32_slot)" where
  "esp32_of_slot now s store =
     (case reservation_time s of
        None \<Rightarrow>
          (store,
           Inr ((esp32_base s)\<lparr>e_status := ''AVAILABLE'', led_color := ''OFF'', buzzer := False\<rparr>))
      | Some t \<Rightarrow>
          (let expiry = plus_timedelta (from_store t) LEASE_TTL
           in case minus_datetime expiry now of
                Inl err \<Rightarrow> (store, Inl err)
              | Inr td \<Rightarrow>
                  (let secs = total_seconds td
                   in if secs > 0 then
                        (let minutes = secs div 60; seconds = secs mod 60
                         in (store,
                             Inr ((esp32_base s)\<lparr>e_status := ''RESERVED'',
                                   e_reserved_by := reserved_by s,
                                   e_staff_email := staff_email s, e_department := department s,
                                   e_time_left_min := Some minutes,
                                   e_time_left_sec := Some seconds,
                                   e_countdown := Some (countdown_str minutes seconds),
                                   led_color := ''GREEN'', buzzer := False\<rparr>)))
                      else
                        (fst (update_one (\<lambda>d. slot_id d = slot_id s) release store),
                         Inr ((esp32_base s)\<lparr>e_status := ''AVAILABLE'', led_color := ''OFF'',
                               buzzer := False\<rparr>)))))"

fun esp32_loop :: "datetime \<Rightarrow> slot list \<Rightarrow> slot list \<Rightarrow> slot list \<times> (py_error + esp32_slot list)" where
  "esp32_loop now [] store = (store, Inr [])"
| "esp32_loop now (s # ss) store =
     (case esp32_of_slot now s store of
        (store1, Inl err) \<Rightarrow> (store1, Inl err)
      | (store1, Inr e) \<Rightarrow>
          (case esp32_loop now ss store1 of
             (store2, Inl err) \<Rightarrow> (store2, Inl err)
           | (store2, Inr es) \<Rightarrow> (store2, Inr (e # es))))"

definition esp32_reserve_status :: "state \<Rightarrow> int \<Rightarrow> state \<times> nat \<times> esp32_body response" where
  "esp32_reserve_status st t =
     (case esp32_loop (utc_now t) (sort_key slot_id (slots_collection st))
             (slots_collection st) of
        (store', Inl err) \<Rightarrow> (st\<lparr>slots_collection := store'\<rparr>, 500, Server_error err)
      | (store', Inr es) \<Rightarrow>
          (st\<lparr>slots_collection := store'\<rparr>, 200,
           Json \<lparr>e_timestamp = t, e_total_slots = length es, e_slots = es,
                 refresh_rate = 1000\<rparr>))"

subsection \<open>The slot invariant and the states used as examples\<close>

text \<open>
  The invariant of the data model: \<^verbatim>\<open>available\<close> is false exactly when both
  \<^verbatim>\<open>reserved_by\<close> and \<^verbatim>\<open>reservation_time\<close> are present.
\<close>

definition slot_inv :: "slot \<Rightarrow> bool" where
  "slot_inv d \<longleftrightarrow>
     (available d = Some False \<longleftrightarrow> reserved_by d \<noteq> None \<and> reservation_time d \<noteq> None)"

text \<open>A registered staff member, as \<^verbatim>\<open>register\<close> writes the document.\<close>

definition staff_cse101 :: user where
  "staff_cse101 =
     \<lparr>u_email = ''asha@campus.edu'', u_user_type = ''staff'', u_staff_id = Some ''cse101'',
      u_department = Some ''CSE'', u_is_active = True\<rparr>"

text \<open>A slot leased to that staff member at time \<open>t\<close>, as \<^verbatim>\<open>reserve_slot\<close> writes it.\<close>

definition leased_slot :: "string \<Rightarrow> int \<Rightarrow> slot" where
  "leased_slot sid t =
     \<lparr>slot_id = sid, available = Some False, reserved_by = Some ''cse101'',
      staff_email = Some ''asha@campus.edu'', department = Some ''CSE'',
      reservation_time = Some t, last_updated = Some t,
      hardware_occupied = None, last_sensor_update = None\<rparr>"

text \<open>The pool after start-up, and pools with leases.\<close>

definition fresh_state :: state where
  "fresh_state =
     \<lparr>users_collection = [staff_cse101],
      slots_collection = [new_slot ''S1'', new_slot ''S2''],
      bookings_collection = []\<rparr>"

definition one_lease_state :: state where
  "one_lease_state =
     \<lparr>users_collection = [staff_cse101],
      slots_collection = [leased_slot ''S1'' 0, new_slot ''S2''],
      bookings_collection = []\<rparr>"

definition full_state :: state where
  "full_state =
     \<lparr>users_collection = [staff_cse101],
      slots_collection = [leased_slot ''S1'' 0, leased_slot ''S2'' 5000000],
      bookings_collection = []\<rparr>"

text \<open>A ledger with two bookings of the staff member and one of a colleague.\<close>

definition booking_of :: "string \<Rightarrow> string \<Rightarrow> int \<Rightarrow> booking" where
  "booking_of sid slot t =
     \<lparr>b_staff_id = Some sid, b_staff_email = sid @ ''@campus.edu'', b_department = Some ''CSE'',
      b_slot_id = slot, reserved_at = t, expires_at = t + LEASE_TTL\<rparr>"

definition ledger_state :: state where
  "ledger_state =
     \<lparr>users_collection = [staff_cse101],
      slots_collection = [new_slot ''S1'', new_slot ''S2''],
      bookings_collection =
        [(0, booking_of ''cse101'' ''S1'' 0), (1, booking_of ''ece101'' ''S2'' 5000000),
         (2, booking_of ''cse101'' ''S2'' 700000000)]\<rparr>"

section \<open>The read paths, slot by slot\<close>

lemma total_seconds_pos: "0 < total_seconds td \<longleftrightarrow> 1000000 \<le> td"
  by (auto simp: total_seconds_def)

text \<open>A stored time against the clock: naive against aware.\<close>

lemma minus_datetime_store_now:
  "minus_datetime (plus_timedelta (from_store T) td) (utc_now t) = Inl TypeError"
  by (simp add: minus_datetime_def plus_timedelta_def from_store_def utc_now_def)

lemma status_of_slot_leased:
  "reservation_time s = Some T \<Longrightarrow>
     status_of_slot us (utc_now t) s store = (store, Inl TypeError)"
  by (simp add: status_of_slot_def minus_datetime_store_now)

lemma esp32_of_slot_leased:
  "reservation_time s = Some T \<Longrightarrow> esp32_of_slot (utc_now t) s store = (store, Inl TypeError)"
  by (simp add: esp32_of_slot_def minus_datetime_store_now)

lemma status_of_slot_free:
  "reservation_time s = None \<Longrightarrow> \<exists>e. status_of_slot us now s store = (store, Inr e)"
  by (simp add: status_of_slot_def)

lemma esp32_of_slot_free:
  "reservation_time s = None \<Longrightarrow> \<exists>e. esp32_of_slot now s store = (store, Inr e)"
  by (simp add: esp32_of_slot_def)

text \<open>The loops stop at the first slot with a \<^verbatim>\<open>reservation_time\<close>, before any write.\<close>

lemma status_loop_raises:
  "\<exists>s\<in>set ss. reservation_time s \<noteq> None \<Longrightarrow>
     status_loop us (utc_now t) ss store = (store, Inl TypeError)"
proof (induction ss)
  case Nil
  then show ?case by simp
next
  case (Cons s ss)
  show ?case
  proof (cases "reservation_time s")
    case (Some T)
    then show ?thesis by (simp add: status_of_slot_leased)
  next
    case None
    with Cons.prems have "\<exists>s\<in>set ss. reservation_time s \<noteq> None" by auto
    then have "status_loop us (utc_now t) ss store = (store, Inl TypeError)"
      by (rule Cons.IH)
    moreover from None obtain e where "status_of_slot us (utc_now t) s store = (store, Inr e)"
      using status_of_slot_free by blast
    ultimately show ?thesis by simp
  qed
qed

lemma esp32_loop_raises:
  "\<exists>s\<in>set ss. reservation_time s \<noteq> None \<Longrightarrow>
     esp32_loop (utc_now t) ss store = (store, Inl TypeError)"
proof (induction ss)
  case Nil
  then show ?case by simp
next
  case (Cons s ss)
  show ?case
  proof (cases "reservation_time s")
    case (Some T)
    then show ?thesis by (simp add: esp32_of_slot_leased)
  next
    case None
    with Cons.prems have "\<exists>s\<in>set ss. reservation_time s \<noteq> None" by auto
    then have "esp32_loop (utc_now t) ss store = (store, Inl TypeError)"
      by (rule Cons.IH)
    moreover from None obtain e where "esp32_of_slot (utc_now t) s store = (store, Inr e)"
      using esp32_of_slot_free by blast
    ultimately show ?thesis by simp
  qed
qed

lemma slots_status_raises:
  assumes "s \<in> set (slots_collection st)" and "reservation_time s = Some T"
  shows "slots_status st t = (st, 500, Server_error TypeError)"
proof -
  from assms have "\<exists>s\<in>set (sort_key slot_id (slots_collection st)). reservation_time s \<noteq> None"
    by auto
  from status_loop_raises [OF this] show ?thesis
    by (simp add: slots_status_def)
qed

lemma esp32_reserve_status_raises:
  assumes "s \<in> set (slots_collection st)" and "reservation_time s = Some T"
  shows "esp32_reserve_status st t = (st, 500, Server_error TypeError)"
proof -
  from assms have "\<exists>s\<in>set (sort_key slot_id (slots_collection st)). reservation_time s \<noteq> None"
    by auto
  from esp32_loop_raises [OF this] show ?thesis
    by (simp add: esp32_reserve_status_def)
qed

section \<open>The collection operations\<close>

lemma find_one_Some: "find_one p ds = Some x \<Longrightarrow> x \<in> set ds \<and> p x"
  by (induction ds) (auto split: if_splits)

lemma find_one_None_iff: "find_one p ds = None \<longleftrightarrow> (\<forall>d\<in>set ds. \<not> p d)"
  by (induction ds) auto

lemma find_one_and_update_no_match:
  "\<forall>d\<in>set ds. \<not> p d \<Longrightarrow> find_one_and_update p u ds = (ds, None)"
  by (induction ds) auto

lemma find_one_and_update_Some:
  "find_one_and_update p u ds = (ds', Some x) \<Longrightarrow>
     \<exists>pre d post. ds = pre @ d # post \<and> (\<forall>e\<in>set pre. \<not> p e) \<and> p d \<and> x = u d \<and>
       ds' = pre @ u d # post"
proof (induction ds arbitrary: ds')
  case Nil
  then show ?case by simp
next
  case (Cons a ds)
  show ?case
  proof (cases "p a")
    case True
    with Cons.prems have "ds' = u a # ds" "x = u a" by auto
    with True show ?thesis by (intro exI [of _ "[]"] exI [of _ a] exI [of _ ds]) simp
  next
    case False
    with Cons.prems obtain ds'' where r: "find_one_and_update p u ds = (ds'', Some x)"
      and ds': "ds' = a # ds''"
      by (auto split: prod.splits)
    from Cons.IH [OF r] obtain pre d post where
      "ds = pre @ d # post" "\<forall>e\<in>set pre. \<not> p e" "p d" "x = u d" "ds'' = pre @ u d # post"
      by blast
    with False ds' show ?thesis
      by (intro exI [of _ "a # pre"] exI [of _ d] exI [of _ post]) simp
  qed
qed

lemma find_one_and_update_None:
  "find_one_and_update p u ds = (ds', None) \<Longrightarrow> ds' = ds \<and> (\<forall>d\<in>set ds. \<not> p d)"
  by (induction ds arbitrary: ds') (auto split: if_splits prod.splits)

text \<open>\<^verbatim>\<open>update_one\<close> replaces the first match and nothing else.\<close>

lemma update_one_no_match:
  "\<forall>d\<in>set ds. \<not> p d \<Longrightarrow> update_one p u ds = (ds, 0)"
  by (induction ds) auto

lemma update_one_match:
  "\<forall>e\<in>set pre. \<not> p e \<Longrightarrow> p d \<Longrightarrow>
     update_one p u (pre @ d # post) = (pre @ u d # post, if u d = d then 0 else 1)"
  by (induction pre) auto

lemma first_match_split:
  "\<exists>d\<in>set ds. p d \<Longrightarrow> \<exists>pre d post. ds = pre @ d # post \<and> (\<forall>e\<in>set pre. \<not> p e) \<and> p d"
  using split_list_first_prop [of ds p] by blast

lemma length_update_one [simp]: "length (fst (update_one p u ds)) = length ds"
  by (induction ds) (auto split: prod.splits)

lemma update_one_preserves:
  "\<forall>d\<in>set ds. P d \<Longrightarrow> (\<And>d. P d \<Longrightarrow> P (u d)) \<Longrightarrow> \<forall>d\<in>set (fst (update_one p u ds)). P d"
  by (induction ds) (auto split: prod.splits)

lemma map_update_one:
  "(\<And>d. f (u d) = f d) \<Longrightarrow> map f (fst (update_one p u ds)) = map f ds"
  by (induction ds) (auto split: prod.splits)

text \<open>Only \<^verbatim>\<open>reserve_slot\<close> writes to the ledger.\<close>

lemma handlers_keep_bookings:
  "bookings_collection (fst (slots_status st t)) = bookings_collection st"
  "bookings_collection (fst (esp32_reserve_status st t)) = bookings_collection st"
  "bookings_collection (fst (hardware_sensor st t sid_opt occ_opt)) = bookings_collection st"
  "bookings_collection (fst (my_bookings st sid)) = bookings_collection st"
  by (simp_all add: slots_status_def esp32_reserve_status_def hardware_sensor_def
      my_bookings_def Let_def split: prod.splits option.splits sum.splits)

section \<open>The slot invariant, operation by operation\<close>

lemma slot_inv_new_slot: "slot_inv (new_slot sid)"
  by (simp add: slot_inv_def new_slot_def)

lemma slot_inv_release: "slot_inv (release d)"
  by (simp add: slot_inv_def release_def)

lemma slot_inv_sensor_set: "slot_inv (sensor_set occ now d) = slot_inv d"
  by (simp add: slot_inv_def sensor_set_def)

lemma slot_inv_claim_slot: "sid \<noteq> None \<Longrightarrow> slot_inv (claim_slot sid usr now d)"
  by (simp add: slot_inv_def claim_slot_def)

lemma status_of_slot_store:
  "fst (status_of_slot us now s store) = store \<or>
   fst (status_of_slot us now s store) = fst (update_one (\<lambda>d. slot_id d = slot_id s) release store)"
  by (simp add: status_of_slot_def Let_def split: option.splits sum.splits)

lemma esp32_of_slot_store:
  "fst (esp32_of_slot now s store) = store \<or>
   fst (esp32_of_slot now s store) = fst (update_one (\<lambda>d. slot_id d = slot_id s) release store)"
  by (simp add: esp32_of_slot_def Let_def split: option.splits sum.splits)

lemma status_of_slot_inv:
  "\<forall>d\<in>set store. slot_inv d \<Longrightarrow> \<forall>d\<in>set (fst (status_of_slot us now s store)). slot_inv d"
  using status_of_slot_store [of us now s store]
    update_one_preserves [of store slot_inv release "\<lambda>d. slot_id d = slot_id s"]
  by (auto simp: slot_inv_release)

lemma esp32_of_slot_inv:
  "\<forall>d\<in>set store. slot_inv d \<Longrightarrow> \<forall>d\<in>set (fst (esp32_of_slot now s store)). slot_inv d"
  using esp32_of_slot_store [of now s store]
    update_one_preserves [of store slot_inv release "\<lambda>d. slot_id d = slot_id s"]
  by (auto simp: slot_inv_release)

lemma status_loop_inv:
  "\<forall>d\<in>set store. slot_inv d \<Longrightarrow> \<forall>d\<in>set (fst (status_loop us now ss store)). slot_inv d"
proof (induction ss arbitrary: store)
  case Nil
  then show ?case by simp
next
  case (Cons s ss)
  have step: "\<forall>d\<in>set (fst (status_of_slot us now s store)). slot_inv d"
    by (rule status_of_slot_inv [OF Cons.prems])
  then have "\<forall>d\<in>set (fst (status_loop us now ss (fst (status_of_slot us now s store)))). slot_inv d"
    by (rule Cons.IH)
  with step show ?case by (auto split: prod.splits sum.splits)
qed

lemma esp32_loop_inv:
  "\<forall>d\<in>set store. slot_inv d \<Longrightarrow> \<forall>d\<in>set (fst (esp32_loop now ss store)). slot_inv d"
proof (induction ss arbitrary: store)
  case Nil
  then show ?case by simp
next
  case (Cons s ss)
  have step: "\<forall>d\<in>set (fst (esp32_of_slot now s store)). slot_inv d"
    by (rule esp32_of_slot_inv [OF Cons.prems])
  then have "\<forall>d\<in>set (fst (esp32_loop now ss (fst (esp32_of_slot now s store)))). slot_inv d"
    by (rule Cons.IH)
  with step show ?case by (auto split: prod.splits sum.splits)
qed

lemma init_slots_inv:
  "\<forall>d\<in>set (slots_collection st). slot_inv d \<Longrightarrow>
     \<forall>d\<in>set (slots_collection (init_slots st)). slot_inv d"
  by (auto simp: init_slots_def slot_inv_new_slot)

lemma reserve_slot_inv:
  assumes inv: "\<forall>d\<in>set (slots_collection st). slot_inv d"
    and ident: "sid \<noteq> None \<or>
       (\<forall>u\<in>set (users_collection st). u_user_type u = ''staff'' \<longrightarrow> u_staff_id u \<noteq> None)"
  shows "\<forall>d\<in>set (slots_collection (fst (reserve_slot st now sid))). slot_inv d"
proof (cases "find_one (\<lambda>u. u_staff_id u = sid \<and> u_user_type u = ''staff'' \<and> u_is_active u)
             (users_collection st)")
  case None
  with inv show ?thesis by (simp add: reserve_slot_def)
next
  case (Some usr)
  from find_one_Some [OF Some] ident have sid: "sid \<noteq> None" by auto
  obtain slots' r where
    upd: "find_one_and_update is_free (claim_slot sid usr now) (slots_collection st) = (slots', r)"
    by (cases "find_one_and_update is_free (claim_slot sid usr now) (slots_collection st)")
  have "\<forall>d\<in>set slots'. slot_inv d"
  proof (cases r)
    case None
    with upd find_one_and_update_None [of is_free "claim_slot sid usr now" "slots_collection st" slots']
    show ?thesis using inv by simp
  next
    case (Some x)
    with upd find_one_and_update_Some [of is_free "claim_slot sid usr now" "slots_collection st" slots' x]
    obtain pre d post where "slots_collection st = pre @ d # post"
      "slots' = pre @ claim_slot sid usr now d # post"
      by blast
    with inv slot_inv_claim_slot [OF sid] show ?thesis by auto
  qed
  with Some upd show ?thesis
    by (cases r) (simp_all add: reserve_slot_def Let_def)
qed

lemma slots_status_inv:
  "\<forall>d\<in>set (slots_collection st). slot_inv d \<Longrightarrow>
     \<forall>d\<in>set (slots_collection (fst (slots_status st now))). slot_inv d"
  using status_loop_inv [of "slots_collection st" "users_collection st" "utc_now now"
      "sort_key slot_id (slots_collection st)"]
  by (auto simp: slots_status_def split: prod.splits sum.splits)

lemma esp32_reserve_status_inv:
  "\<forall>d\<in>set (slots_collection st). slot_inv d \<Longrightarrow>
     \<forall>d\<in>set (slots_collection (fst (esp32_reserve_status st now))). slot_inv d"
  using esp32_loop_inv [of "slots_collection st" "utc_now now" "sort_key slot_id (slots_collection st)"]
  by (auto simp: esp32_reserve_status_def split: prod.splits sum.splits)

lemma hardware_sensor_slots:
  "slots_collection (fst (hardware_sensor st now sid_opt occ_opt)) = slots_collection st \<or>
   (\<exists>sid occ. slots_collection (fst (hardware_sensor st now sid_opt occ_opt)) =
      fst (update_one (\<lambda>d. slot_id d = sid) (sensor_set occ now) (slots_collection st)))"
  by (cases sid_opt; cases occ_opt)
     (auto simp: hardware_sensor_def split: prod.splits, (metis fst_conv)+)

lemma hardware_sensor_inv:
  assumes inv: "\<forall>d\<in>set (slots_collection st). slot_inv d"
  shows "\<forall>d\<in>set (slots_collection (fst (hardware_sensor st now sid_opt occ_opt))). slot_inv d"
proof -
  have "\<forall>d\<in>set (fst (update_one (\<lambda>d. slot_id d = sid) (sensor_set occ now)
           (slots_collection st))). slot_inv d" for sid occ
    using inv by (rule update_one_preserves) (simp add: slot_inv_sensor_set)
  with inv hardware_sensor_slots [of st now sid_opt occ_opt] show ?thesis
    by auto
qed

section \<open>The countdown format\<close>

lemma digits_one: "n < 10 \<Longrightarrow> digits n = [''0123456789'' ! n]"
  by (simp add: digits.simps)

lemma fmt02d_two_digits:
  assumes "n < 100"
  shows "fmt02d (int n) = [''0123456789'' ! (n div 10), ''0123456789'' ! (n mod 10)]"
proof (cases "n < 10")
  case True
  then show ?thesis by (simp add: fmt02d_def digits_one)
next
  case False
  with assms have "n div 10 < 10" by simp
  with False show ?thesis
    by (simp add: fmt02d_def digits.simps [of n] digits_one)
qed

lemma countdown_str_two_digits:
  "m < 100 \<Longrightarrow> s < 100 \<Longrightarrow>
     countdown_str (int m) (int s) =
       [''0123456789'' ! (m div 10), ''0123456789'' ! (m mod 10), CHR '':'',
        ''0123456789'' ! (s div 10), ''0123456789'' ! (s mod 10)]"
  by (simp add: countdown_str_def fmt02d_two_digits)

section \<open>C1: when a lease counts as active\<close>

text \<open>
  C1 states that a lease started at \<open>T\<close> is reported RESERVED for every query time with
  \<open>T \<le> now < T + 10 min\<close> and AVAILABLE from \<open>T + 10 min\<close> on. The read paths do not
  report either: for a slot with a \<^verbatim>\<open>reservation_time\<close> both compute
  \<^verbatim>\<open>expiry - now\<close> from the naive stored time and the aware clock, which raises
  \<^verbatim>\<open>TypeError\<close>. So for every state with a leased slot and every query time,
  \<^verbatim>\<open>slots_status\<close> and \<^verbatim>\<open>esp32_reserve_status\<close> answer with status 500 and leave the
  state as it is; the test \<^verbatim>\<open>total_seconds > 0\<close> is never reached.
\<close>

theorem lease_status_read_raises:
  assumes "s \<in> set (slots_collection st)" and "reservation_time s = Some T"
  shows "slots_status st now = (st, 500, Server_error TypeError) \<and>
         esp32_reserve_status st now = (st, 500, Server_error TypeError)"
  using slots_status_raises [OF assms] esp32_reserve_status_raises [OF assms] by simp

text \<open>The theorem at a lease started at time 0, read five minutes later.\<close>

theorem lease_status_read_raises_witness:
  "leased_slot ''S1'' 0 \<in> set (slots_collection one_lease_state) \<and>
   reservation_time (leased_slot ''S1'' 0) = Some 0 \<and>
   (0::int) \<le> 300000000 \<and> (300000000::int) < 0 + LEASE_TTL \<and>
   slots_status one_lease_state 300000000 = (one_lease_state, 500, Server_error TypeError) \<and>
   esp32_reserve_status one_lease_state 300000000 =
     (one_lease_state, 500, Server_error TypeError)"
proof -
  have s: "leased_slot ''S1'' 0 \<in> set (slots_collection one_lease_state)"
    by (simp add: one_lease_state_def)
  have T: "reservation_time (leased_slot ''S1'' 0) = Some 0"
    by (simp add: leased_slot_def)
  from lease_status_read_raises [OF s T, of 300000000] s T show ?thesis
    by (simp add: LEASE_TTL_def)
qed

section \<open>C2: allocation when no slot is free\<close>

text \<open>
  C2: when \<^verbatim>\<open>reserve_slot\<close> is called for a verified staff identity (the users collection
  has an active staff document with the \<^verbatim>\<open>staff_id\<close> of the request) and no slot has
  \<^verbatim>\<open>available == True\<close> and \<^verbatim>\<open>reserved_by == None\<close>, the answer is the error
  "No slots available" with HTTP status 404, and the state is returned as it was: no slot
  document is modified and no booking is appended.
\<close>

theorem reserve_slot_no_slot_available:
  assumes staff: "\<exists>u\<in>set (users_collection st).
                    u_staff_id u = sid \<and> u_user_type u = ''staff'' \<and> u_is_active u"
    and none_free: "\<forall>d\<in>set (slots_collection st).
                    \<not> (available d = Some True \<and> reserved_by d = None)"
  shows "reserve_slot st now sid = (st, 404, Reserve_error ''No slots available'')"
proof -
  from staff obtain usr where
    "find_one (\<lambda>u. u_staff_id u = sid \<and> u_user_type u = ''staff'' \<and> u_is_active u)
       (users_collection st) = Some usr"
    using find_one_None_iff [of "\<lambda>u. u_staff_id u = sid \<and> u_user_type u = ''staff'' \<and> u_is_active u"
        "users_collection st"]
    by (cases "find_one (\<lambda>u. u_staff_id u = sid \<and> u_user_type u = ''staff'' \<and> u_is_active u)
       (users_collection st)") auto
  moreover from none_free have
    "find_one_and_update is_free (claim_slot sid usr now) (slots_collection st) =
       (slots_collection st, None)"
    by (intro find_one_and_update_no_match) (simp add: is_free_def)
  ultimately show ?thesis
    by (simp add: reserve_slot_def)
qed

text \<open>The theorem at a pool whose two slots are both leased.\<close>

theorem reserve_slot_no_slot_available_witness:
  "(\<exists>u\<in>set (users_collection full_state).
      u_staff_id u = Some ''cse101'' \<and> u_user_type u = ''staff'' \<and> u_is_active u) \<and>
   filter (\<lambda>d. available d = Some True \<and> reserved_by d = None) (slots_collection full_state) = [] \<and>
   reserve_slot full_state 7000000 (Some ''cse101'') =
     (full_state, 404, Reserve_error ''No slots available'')"
proof -
  have staff: "\<exists>u\<in>set (users_collection full_state).
      u_staff_id u = Some ''cse101'' \<and> u_user_type u = ''staff'' \<and> u_is_active u"
    by (simp add: full_state_def staff_cse101_def)
  have none_free: "\<forall>d\<in>set (slots_collection full_state).
      \<not> (available d = Some True \<and> reserved_by d = None)"
    by (simp add: full_state_def leased_slot_def)
  have "filter (\<lambda>d. available d = Some True \<and> reserved_by d = None)
      (slots_collection full_state) = []"
    by (simp add: full_state_def leased_slot_def)
  then show ?thesis
    using staff reserve_slot_no_slot_available [OF staff none_free, of 7000000]
    by blast
qed

section \<open>C3: the slot invariant\<close>

text \<open>
  C3: the invariant "\<^verbatim>\<open>available\<close> is false iff \<^verbatim>\<open>reserved_by\<close> and \<^verbatim>\<open>reservation_time\<close>
  are both present" holds for the pool that \<^verbatim>\<open>init_slots\<close> creates and is preserved by
  every operation that writes a slot document: the allocation (\<^verbatim>\<open>reserve_slot\<close>), the
  auto-release of both read paths (\<^verbatim>\<open>slots_status\<close>, \<^verbatim>\<open>esp32_reserve_status\<close>) and the
  sensor update (\<^verbatim>\<open>hardware_sensor\<close>). For the allocation the requester is an identified
  staff member: the request names a \<^verbatim>\<open>staff_id\<close>, or every staff document of the users
  collection has one, as \<^verbatim>\<open>register\<close> writes them. An empty collection satisfies the
  hypothesis, so the first conjunct is the invariant of the initial pool.
\<close>

theorem slot_invariant_preserved:
  assumes inv: "\<forall>d\<in>set (slots_collection st). slot_inv d"
  shows "(\<forall>d\<in>set (slots_collection (init_slots st)). slot_inv d) \<and>
         ((sid \<noteq> None \<or>
            (\<forall>u\<in>set (users_collection st). u_user_type u = ''staff'' \<longrightarrow> u_staff_id u \<noteq> None)) \<longrightarrow>
          (\<forall>d\<in>set (slots_collection (fst (reserve_slot st now sid))). slot_inv d)) \<and>
         (\<forall>d\<in>set (slots_collection (fst (slots_status st now))). slot_inv d) \<and>
         (\<forall>d\<in>set (slots_collection (fst (esp32_reserve_status st now))). slot_inv d) \<and>
         (\<forall>d\<in>set (slots_collection (fst (hardware_sensor st now sid_opt occ_opt))). slot_inv d)"
  using init_slots_inv [OF inv] reserve_slot_inv [OF inv, of sid now] slots_status_inv [OF inv, of now]
    esp32_reserve_status_inv [OF inv, of now] hardware_sensor_inv [OF inv, of now sid_opt occ_opt]
  by blast

text \<open>
  The theorem at the empty collection, where \<^verbatim>\<open>init_slots\<close> creates the five slots
  \<^verbatim>\<open>S1\<close> to \<^verbatim>\<open>S5\<close>, and at a pool with one lease: an allocation, both reads after the
  expiry of the lease and a sensor update.
\<close>

theorem slot_invariant_preserved_witness:
  "map slot_id (slots_collection (init_slots
      \<lparr>users_collection = [], slots_collection = [], bookings_collection = []\<rparr>)) =
     [''S1'', ''S2'', ''S3'', ''S4'', ''S5''] \<and>
   list_all slot_inv (slots_collection (init_slots
      \<lparr>users_collection = [], slots_collection = [], bookings_collection = []\<rparr>)) \<and>
   list_all slot_inv (slots_collection one_lease_state) \<and>
   list_all slot_inv
     (slots_collection (fst (reserve_slot one_lease_state 3000000 (Some ''cse101'')))) \<and>
   list_all slot_inv (slots_collection (fst (slots_status one_lease_state 700000000))) \<and>
   list_all slot_inv (slots_collection (fst (esp32_reserve_status one_lease_state 700000000))) \<and>
   list_all slot_inv
     (slots_collection (fst (hardware_sensor one_lease_state 700000000 (Some ''S1'') (Some True))))"
proof -
  have ids: "map slot_id (slots_collection (init_slots
      \<lparr>users_collection = [], slots_collection = [], bookings_collection = []\<rparr>)) =
     [''S1'', ''S2'', ''S3'', ''S4'', ''S5'']"
    by (simp add: init_slots_def new_slot_def upt_rec digits.simps)
  have empty: "\<forall>d\<in>set (slots_collection
      \<lparr>users_collection = [], slots_collection = [], bookings_collection = []\<rparr>). slot_inv d"
    by simp
  have inv: "\<forall>d\<in>set (slots_collection one_lease_state). slot_inv d"
    by (simp add: one_lease_state_def leased_slot_def new_slot_def slot_inv_def)
  have sid: "Some ''cse101'' \<noteq> (None :: string option)"
    by simp
  show ?thesis
    unfolding list_all_iff
    using ids inv sid
      slot_invariant_preserved [OF empty, of None 0 None None]
      slot_invariant_preserved [OF inv, of "Some ''cse101''" 3000000 None None]
      slot_invariant_preserved [OF inv, of None 700000000 "Some ''S1''" "Some True"]
    by blast
qed

section \<open>C4: a sensor update for an unknown slot\<close>

text \<open>
  C4 (as stated): a sensor update that names a \<^verbatim>\<open>slot_id\<close> not in the slot store fails
  with a client error instead of acknowledging success. \<^verbatim>\<open>hardware_sensor\<close> has no such
  check: for the unknown slot \<^verbatim>\<open>S9\<close> it answers with status 200 and
  \<^verbatim>\<open>success: True\<close>, the flag \<^verbatim>\<open>updated\<close> being false.
\<close>

theorem sensor_update_unknown_slot_counterexample:
  "''S9'' \<notin> slot_id ` set (slots_collection fresh_state) \<and>
   hardware_sensor fresh_state 1000000 (Some ''S9'') (Some True) =
     (fresh_state, 200, Sensor_ok ''S9'' True False)"
  by (simp add: hardware_sensor_def fresh_state_def new_slot_def sensor_set_def)

text \<open>
  C4 (amended): a sensor update that names a non-empty \<^verbatim>\<open>slot_id\<close> not in the slot store
  is acknowledged with status 200 and \<^verbatim>\<open>updated: False\<close>, and the state is unchanged;
  the only client error of the operation is status 400, "slot_id required", when the
  \<^verbatim>\<open>slot_id\<close> is missing or empty.
\<close>

theorem sensor_update_unknown_slot_acknowledged:
  "(sid \<noteq> [] \<and> sid \<notin> slot_id ` set (slots_collection st) \<longrightarrow>
      hardware_sensor st now (Some sid) occ_opt =
        (st, 200, Sensor_ok sid (case occ_opt of None \<Rightarrow> False | Some b \<Rightarrow> b) False)) \<and>
   hardware_sensor st now None occ_opt = (st, 400, Sensor_error ''slot_id required'') \<and>
   hardware_sensor st now (Some []) occ_opt = (st, 400, Sensor_error ''slot_id required'')"
proof -
  have "update_one (\<lambda>d. slot_id d = sid) u (slots_collection st) = (slots_collection st, 0)"
    if "sid \<notin> slot_id ` set (slots_collection st)" for u
    using that by (intro update_one_no_match) auto
  then show ?thesis
    by (simp add: hardware_sensor_def)
qed

text \<open>The theorem at the unknown slot \<^verbatim>\<open>S7\<close>, with no \<^verbatim>\<open>occupied\<close> key in the request.\<close>

theorem sensor_update_unknown_slot_acknowledged_witness:
  "''S7'' \<noteq> [] \<and> ''S7'' \<notin> slot_id ` set (slots_collection one_lease_state) \<and>
   hardware_sensor one_lease_state 1000000 (Some ''S7'') None =
     (one_lease_state, 200, Sensor_ok ''S7'' False False)"
proof -
  have h: "''S7'' \<noteq> [] \<and> ''S7'' \<notin> slot_id ` set (slots_collection one_lease_state)"
    by (simp add: one_lease_state_def leased_slot_def new_slot_def)
  with sensor_update_unknown_slot_acknowledged [of "''S7''" one_lease_state 1000000 None]
  show ?thesis by simp
qed

section \<open>C5: reading the status twice after an expiry\<close>

text \<open>
  C5 states that two calls of the status view in a row, after the lease of a slot has
  expired, both report the slot AVAILABLE, the second without a further write. In the
  program neither call gets to the auto-release: for every state with a leased slot, the
  first call of \<^verbatim>\<open>slots_status\<close> raises \<^verbatim>\<open>TypeError\<close> and answers with status 500, it
  leaves the state as it is, so the second call does the same, and the slot is still in
  the store with its lease.
\<close>

theorem expired_slot_status_twice_raises:
  assumes "s \<in> set (slots_collection st)" and "reservation_time s = Some T"
  shows "slots_status st now1 = (st, 500, Server_error TypeError) \<and>
         slots_status (fst (slots_status st now1)) now2 = (st, 500, Server_error TypeError) \<and>
         s \<in> set (slots_collection (fst (slots_status (fst (slots_status st now1)) now2)))"
  using slots_status_raises [OF assms, of now1] slots_status_raises [OF assms, of now2] assms(1)
  by simp

text \<open>
  The theorem at a lease started at time 0, read at the exact boundary of ten minutes and
  again half a second later.
\<close>

theorem expired_slot_status_twice_raises_witness:
  "leased_slot ''S1'' 0 \<in> set (slots_collection one_lease_state) \<and>
   reservation_time (leased_slot ''S1'' 0) = Some 0 \<and>
   (0::int) + LEASE_TTL \<le> 600000000 \<and>
   slots_status one_lease_state 600000000 = (one_lease_state, 500, Server_error TypeError) \<and>
   slots_status (fst (slots_status one_lease_state 600000000)) 600500000 =
     (one_lease_state, 500, Server_error TypeError) \<and>
   leased_slot ''S1'' 0 \<in> set (slots_collection
     (fst (slots_status (fst (slots_status one_lease_state 600000000)) 600500000)))"
proof -
  have s: "leased_slot ''S1'' 0 \<in> set (slots_collection one_lease_state)"
    by (simp add: one_lease_state_def)
  have T: "reservation_time (leased_slot ''S1'' 0) = Some 0"
    by (simp add: leased_slot_def)
  have "(0::int) + LEASE_TTL \<le> 600000000"
    by (simp add: LEASE_TTL_def)
  with expired_slot_status_twice_raises [OF s T, of 600000000 600500000] s T show ?thesis
    by blast
qed

section \<open>C6: what a sensor update writes\<close>

text \<open>
  C6: a sensor update for an existing slot replaces the first document with that
  \<^verbatim>\<open>slot_id\<close> by the same document with \<^verbatim>\<open>hardware_occupied\<close> and
  \<^verbatim>\<open>last_sensor_update\<close> overwritten. Every other document, the users and the bookings are
  unchanged, and the fields \<^verbatim>\<open>slot_id\<close>, \<^verbatim>\<open>available\<close>, \<^verbatim>\<open>reserved_by\<close>,
  \<^verbatim>\<open>reservation_time\<close>, \<^verbatim>\<open>staff_email\<close>, \<^verbatim>\<open>department\<close> and \<^verbatim>\<open>last_updated\<close> of
  every document are as before.
\<close>

theorem sensor_update_frame:
  assumes ex: "\<exists>d\<in>set (slots_collection st). slot_id d = sid" and ne: "sid \<noteq> []"
  shows "\<exists>pre d post occ.
           occ = (case occ_opt of None \<Rightarrow> False | Some b \<Rightarrow> b) \<and>
           slots_collection st = pre @ d # post \<and> (\<forall>e\<in>set pre. slot_id e \<noteq> sid) \<and>
           slot_id d = sid \<and>
           hardware_sensor st now (Some sid) occ_opt =
             (st\<lparr>slots_collection :=
                   pre @ d\<lparr>hardware_occupied := Some occ, last_sensor_update := Some now\<rparr> # post\<rparr>,
              200,
              Sensor_ok sid occ
                (d\<lparr>hardware_occupied := Some occ, last_sensor_update := Some now\<rparr> \<noteq> d)) \<and>
           map (\<lambda>d. (slot_id d, available d, reserved_by d, reservation_time d, staff_email d,
                      department d, last_updated d))
             (slots_collection (fst (hardware_sensor st now (Some sid) occ_opt))) =
           map (\<lambda>d. (slot_id d, available d, reserved_by d, reservation_time d, staff_email d,
                      department d, last_updated d)) (slots_collection st)"
proof -
  define occ where "occ = (case occ_opt of None \<Rightarrow> False | Some b \<Rightarrow> b)"
  from first_match_split [of "slots_collection st" "\<lambda>d. slot_id d = sid"] ex
  obtain pre d post where split: "slots_collection st = pre @ d # post"
    and pre: "\<forall>e\<in>set pre. slot_id e \<noteq> sid" and d: "slot_id d = sid"
    by blast
  have upd: "update_one (\<lambda>d. slot_id d = sid) (sensor_set occ now) (slots_collection st) =
      (pre @ sensor_set occ now d # post, if sensor_set occ now d = d then 0 else 1)"
    unfolding split using pre d by (intro update_one_match) auto
  have run: "hardware_sensor st now (Some sid) occ_opt =
      (st\<lparr>slots_collection := pre @ sensor_set occ now d # post\<rparr>, 200,
       Sensor_ok sid occ (sensor_set occ now d \<noteq> d))"
    using ne upd by (simp add: hardware_sensor_def occ_def [symmetric])
  have frame: "map (\<lambda>d. (slot_id d, available d, reserved_by d, reservation_time d, staff_email d,
                      department d, last_updated d))
             (slots_collection (fst (hardware_sensor st now (Some sid) occ_opt))) =
           map (\<lambda>d. (slot_id d, available d, reserved_by d, reservation_time d, staff_email d,
                      department d, last_updated d)) (slots_collection st)"
    unfolding run by (simp add: split sensor_set_def)
  show ?thesis
    using split pre d run frame occ_def
    by (intro exI [of _ pre] exI [of _ d] exI [of _ post] exI [of _ occ])
       (simp add: sensor_set_def)
qed

text \<open>The theorem at a sensor report for the leased slot \<^verbatim>\<open>S1\<close>.\<close>

theorem sensor_update_frame_witness:
  "(\<exists>d\<in>set (slots_collection one_lease_state). slot_id d = ''S1'') \<and> ''S1'' \<noteq> [] \<and>
   hardware_sensor one_lease_state 8000000 (Some ''S1'') (Some True) =
     (one_lease_state\<lparr>slots_collection :=
        [(leased_slot ''S1'' 0)\<lparr>hardware_occupied := Some True, last_sensor_update := Some 8000000\<rparr>,
         new_slot ''S2'']\<rparr>,
      200, Sensor_ok ''S1'' True True)"
proof -
  have ex: "\<exists>d\<in>set (slots_collection one_lease_state). slot_id d = ''S1''"
    by (simp add: one_lease_state_def leased_slot_def)
  have ne: "''S1'' \<noteq> []" by simp
  from sensor_update_frame [OF ex ne, of "Some True" 8000000]
  obtain pre d post where split: "slots_collection one_lease_state = pre @ d # post"
    and pre: "\<forall>e\<in>set pre. slot_id e \<noteq> ''S1''" and d: "slot_id d = ''S1''"
    and run: "hardware_sensor one_lease_state 8000000 (Some ''S1'') (Some True) =
             (one_lease_state\<lparr>slots_collection :=
                   pre @ d\<lparr>hardware_occupied := Some True, last_sensor_update := Some 8000000\<rparr> # post\<rparr>,
              200,
              Sensor_ok ''S1'' True
                (d\<lparr>hardware_occupied := Some True, last_sensor_update := Some 8000000\<rparr> \<noteq> d))"
    by auto
  have "pre = []"
  proof (cases pre)
    case Nil
    then show ?thesis .
  next
    case (Cons a as)
    with split have "a = leased_slot ''S1'' 0" by (simp add: one_lease_state_def)
    with pre Cons show ?thesis by (simp add: leased_slot_def)
  qed
  with split have "d = leased_slot ''S1'' 0" "post = [new_slot ''S2'']"
    by (simp_all add: one_lease_state_def)
  with run \<open>pre = []\<close> ex ne show ?thesis
    by (simp add: leased_slot_def)
qed

section \<open>C7: the booking written by a successful allocation\<close>

text \<open>
  C7: when \<^verbatim>\<open>reserve_slot\<close> succeeds (HTTP status 201), exactly one booking is appended
  to the ledger; its \<^verbatim>\<open>expires_at\<close> is its \<^verbatim>\<open>reserved_at\<close> plus \<^verbatim>\<open>LEASE_TTL\<close>
  (10 minutes), its \<^verbatim>\<open>reserved_at\<close> is the time of the call, and the slot document
  named by the booking carries that same time as its \<^verbatim>\<open>reservation_time\<close>. The body of
  the response repeats the values of the booking. The booking is not derived again
  later: the read paths, the sensor update and the history leave the ledger as it is.
\<close>

theorem booking_expires_ten_minutes_after_lease_start:
  assumes ok: "reserve_slot st now sid = (st', 201, body)"
  shows "(\<exists>n bk. bookings_collection st' = bookings_collection st @ [(n, bk)] \<and>
           expires_at bk = reserved_at bk + LEASE_TTL \<and> LEASE_TTL = 10 * 60 * 1000000 \<and>
           reserved_at bk = now \<and> b_staff_id bk = sid \<and>
           (\<exists>d\<in>set (slots_collection st').
              slot_id d = b_slot_id bk \<and> reserved_by d = sid \<and>
              reservation_time d = Some (reserved_at bk)) \<and>
           body = Reserve_ok (b_slot_id bk) sid (b_staff_email bk) (b_department bk)
                    (reserved_at bk) (expires_at bk) 10) \<and>
         bookings_collection (fst (slots_status st' t)) = bookings_collection st' \<and>
         bookings_collection (fst (esp32_reserve_status st' t)) = bookings_collection st' \<and>
         bookings_collection (fst (hardware_sensor st' t sid_opt occ_opt)) =
           bookings_collection st' \<and>
         bookings_collection (fst (my_bookings st' sid')) = bookings_collection st'"
proof -
  from ok obtain usr where usr:
    "find_one (\<lambda>u. u_staff_id u = sid \<and> u_user_type u = ''staff'' \<and> u_is_active u)
       (users_collection st) = Some usr"
    by (auto simp: reserve_slot_def split: option.splits)
  with ok obtain slots' slt where
    upd: "find_one_and_update is_free (claim_slot sid usr now) (slots_collection st) =
            (slots', Some slt)"
    by (auto simp: reserve_slot_def split: option.splits prod.splits)
  from find_one_and_update_Some [OF upd] obtain pre d post where
    slt: "slt = claim_slot sid usr now d" and slots': "slots' = pre @ claim_slot sid usr now d # post"
    by blast
  let ?bk = "\<lparr>b_staff_id = sid, b_staff_email = u_email usr, b_department = u_department usr,
              b_slot_id = slot_id slt, reserved_at = now, expires_at = now + LEASE_TTL\<rparr>"
  from ok usr upd have st': "st' = st\<lparr>slots_collection := slots',
      bookings_collection := bookings_collection st @ [(length (bookings_collection st), ?bk)]\<rparr>"
    and body: "body = Reserve_ok (slot_id slt) sid (u_email usr) (u_department usr) now
                 (now + LEASE_TTL) 10"
    by (simp_all add: reserve_slot_def Let_def)
  have "slt \<in> set (slots_collection st')"
    using st' slots' slt by simp
  moreover have "reserved_by slt = sid" "reservation_time slt = Some now"
    using slt by (simp_all add: claim_slot_def)
  ultimately have "\<exists>d\<in>set (slots_collection st').
      slot_id d = b_slot_id ?bk \<and> reserved_by d = sid \<and> reservation_time d = Some (reserved_at ?bk)"
    by auto
  then have "\<exists>n bk. bookings_collection st' = bookings_collection st @ [(n, bk)] \<and>
           expires_at bk = reserved_at bk + LEASE_TTL \<and> LEASE_TTL = 10 * 60 * 1000000 \<and>
           reserved_at bk = now \<and> b_staff_id bk = sid \<and>
           (\<exists>d\<in>set (slots_collection st').
              slot_id d = b_slot_id bk \<and> reserved_by d = sid \<and>
              reservation_time d = Some (reserved_at bk)) \<and>
           body = Reserve_ok (b_slot_id bk) sid (b_staff_email bk) (b_department bk)
                    (reserved_at bk) (expires_at bk) 10"
    using st' body
    by (intro exI [of _ "length (bookings_collection st)"] exI [of _ ?bk])
       (simp add: LEASE_TTL_def)
  then show ?thesis
    by (simp only: handlers_keep_bookings simp_thms)
qed

text \<open>The theorem at a pool with one free slot, three seconds after the first lease.\<close>

theorem booking_expires_ten_minutes_after_lease_start_witness:
  "reserve_slot one_lease_state 3000000 (Some ''cse101'') =
     (one_lease_state\<lparr>slots_collection := [leased_slot ''S1'' 0, leased_slot ''S2'' 3000000],
        bookings_collection :=
          [(0, \<lparr>b_staff_id = Some ''cse101'', b_staff_email = ''asha@campus.edu'',
                b_department = Some ''CSE'', b_slot_id = ''S2'', reserved_at = 3000000,
                expires_at = 603000000\<rparr>)]\<rparr>,
      201, Reserve_ok ''S2'' (Some ''cse101'') ''asha@campus.edu'' (Some ''CSE'') 3000000 603000000 10)
   \<and> (\<exists>n bk. bookings_collection (fst (reserve_slot one_lease_state 3000000 (Some ''cse101''))) =
               bookings_collection one_lease_state @ [(n, bk)] \<and>
           expires_at bk = reserved_at bk + LEASE_TTL)"
proof -
  have run: "reserve_slot one_lease_state 3000000 (Some ''cse101'') =
     (one_lease_state\<lparr>slots_collection := [leased_slot ''S1'' 0, leased_slot ''S2'' 3000000],
        bookings_collection :=
          [(0, \<lparr>b_staff_id = Some ''cse101'', b_staff_email = ''asha@campus.edu'',
                b_department = Some ''CSE'', b_slot_id = ''S2'', reserved_at = 3000000,
                expires_at = 603000000\<rparr>)]\<rparr>,
      201, Reserve_ok ''S2'' (Some ''cse101'') ''asha@campus.edu'' (Some ''CSE'') 3000000 603000000 10)"
    by (simp add: reserve_slot_def one_lease_state_def staff_cse101_def leased_slot_def
        new_slot_def is_free_def claim_slot_def LEASE_TTL_def)
  from booking_expires_ten_minutes_after_lease_start [OF run]
  show ?thesis using run by auto
qed

section \<open>C8: the countdown of a reserved slot\<close>

text \<open>
  C8 states that the remaining time is rendered as zero-padded \<^verbatim>\<open>MM:SS\<close> with
  \<^verbatim>\<open>minutes = remaining // 60\<close> and \<^verbatim>\<open>seconds = remaining % 60\<close>, that 125 seconds render
  as \<^verbatim>\<open>02:05\<close> and 0 seconds as \<^verbatim>\<open>00:00\<close>. The format expression of the source does
  that: two digits each below 100 minutes, \<^verbatim>\<open>02:05\<close> for 125 seconds and \<^verbatim>\<open>00:00\<close> for 0.
  But no response carries a countdown: for every state with a leased slot both read
  paths raise \<^verbatim>\<open>TypeError\<close> before the remaining seconds are known, and the body of the
  answer is the error page.
\<close>

theorem countdown_never_rendered:
  assumes "s \<in> set (slots_collection st)" and "reservation_time s = Some T"
  shows "snd (slots_status st now) = (500, Server_error TypeError) \<and>
         snd (esp32_reserve_status st now) = (500, Server_error TypeError) \<and>
         (\<forall>m s. m < 100 \<and> s < 60 \<longrightarrow>
            countdown_str (int m) (int s) =
              [''0123456789'' ! (m div 10), ''0123456789'' ! (m mod 10), CHR '':'',
               ''0123456789'' ! (s div 10), ''0123456789'' ! (s mod 10)]) \<and>
         countdown_str (125 div 60) (125 mod 60) = ''02:05'' \<and>
         countdown_str (0 div 60) (0 mod 60) = ''00:00''"
proof -
  have fmt: "\<forall>m s. m < 100 \<and> s < 60 \<longrightarrow>
      countdown_str (int m) (int s) =
        [''0123456789'' ! (m div 10), ''0123456789'' ! (m mod 10), CHR '':'',
         ''0123456789'' ! (s div 10), ''0123456789'' ! (s mod 10)]"
    by (simp add: countdown_str_two_digits)
  have ex: "countdown_str (125 div 60) (125 mod 60) = ''02:05''"
    "countdown_str (0 div 60) (0 mod 60) = ''00:00''"
    by (simp_all add: countdown_str_def fmt02d_def digits.simps)
  from slots_status_raises [OF assms, of now] esp32_reserve_status_raises [OF assms, of now]
  have "snd (slots_status st now) = (500, Server_error TypeError)"
    "snd (esp32_reserve_status st now) = (500, Server_error TypeError)"
    by simp_all
  with fmt ex show ?thesis by blast
qed

text \<open>
  The theorem at a lease with 125 seconds left, and the format of 9 minutes and 59
  seconds.
\<close>

theorem countdown_never_rendered_witness:
  "leased_slot ''S1'' 0 \<in> set (slots_collection one_lease_state) \<and>
   reservation_time (leased_slot ''S1'' 0) = Some 0 \<and>
   total_seconds (0 + LEASE_TTL - 475000000) = 125 \<and>
   snd (slots_status one_lease_state 475000000) = (500, Server_error TypeError) \<and>
   snd (esp32_reserve_status one_lease_state 475000000) = (500, Server_error TypeError) \<and>
   (9::nat) < 100 \<and> (59::nat) < 60 \<and> countdown_str (int 9) (int 59) = ''09:59''"
proof -
  have s: "leased_slot ''S1'' 0 \<in> set (slots_collection one_lease_state)"
    by (simp add: one_lease_state_def)
  have T: "reservation_time (leased_slot ''S1'' 0) = Some 0"
    by (simp add: leased_slot_def)
  have secs: "total_seconds (0 + LEASE_TTL - 475000000) = 125"
    by (simp add: total_seconds_def LEASE_TTL_def)
  note r = countdown_never_rendered [OF s T, of 475000000]
  from r have "\<forall>m s. m < 100 \<and> s < 60 \<longrightarrow>
      countdown_str (int m) (int s) =
        [''0123456789'' ! (m div 10), ''0123456789'' ! (m mod 10), CHR '':'',
         ''0123456789'' ! (s div 10), ''0123456789'' ! (s mod 10)]"
    by blast
  from this [rule_format, of 9 59] have "countdown_str (int 9) (int 59) = ''09:59''"
    by simp
  with r s T secs show ?thesis by simp
qed

section \<open>C9: the booking history\<close>

lemma sorted_wrt_take_drop:
  assumes "sorted (map k xs)"
  shows "\<forall>x\<in>set (take n xs). \<forall>y\<in>set (drop n xs). k x \<le> k y"
proof -
  from assms have "sorted (map k (take n xs) @ map k (drop n xs))"
    by (simp flip: map_append)
  then show ?thesis by (auto simp: sorted_append)
qed

text \<open>
  C9: \<^verbatim>\<open>my_bookings\<close> returns the state as it was, with status 200 and at most 20
  bookings, all of the requester, sorted by \<^verbatim>\<open>reserved_at\<close> with the newest first. They
  are the newest: together with the bookings left out (\<open>rest\<close>) they are exactly the
  requester's bookings of the ledger, none is left out unless 20 are returned, and no
  booking left out is newer than a returned one. Each returned entry is the second
  component of a stored document, that is the document without its \<^verbatim>\<open>_id\<close>.
\<close>

theorem my_bookings_newest_first:
  "fst (my_bookings st sid) = st \<and>
   fst (snd (my_bookings st sid)) = 200 \<and>
   length (mb_bookings (snd (snd (my_bookings st sid)))) \<le> 20 \<and>
   total_bookings (snd (snd (my_bookings st sid))) =
     length (mb_bookings (snd (snd (my_bookings st sid)))) \<and>
   sorted_wrt (\<lambda>a b. reserved_at b \<le> reserved_at a)
     (mb_bookings (snd (snd (my_bookings st sid)))) \<and>
   (\<forall>b\<in>set (mb_bookings (snd (snd (my_bookings st sid)))). b_staff_id b = Some sid) \<and>
   (\<exists>rest.
      mset (mb_bookings (snd (snd (my_bookings st sid))) @ rest) =
        mset (map snd (filter (\<lambda>d. b_staff_id (snd d) = Some sid) (bookings_collection st))) \<and>
      (rest \<noteq> [] \<longrightarrow> length (mb_bookings (snd (snd (my_bookings st sid)))) = 20) \<and>
      (\<forall>b\<in>set (mb_bookings (snd (snd (my_bookings st sid)))).
         \<forall>b'\<in>set rest. reserved_at b' \<le> reserved_at b))"
proof -
  define fs where "fs = filter (\<lambda>d. b_staff_id (snd d) = Some sid) (bookings_collection st)"
  define ss where "ss = sort_key (\<lambda>d. - reserved_at (snd d)) fs"
  define res where "res = map snd (take 20 ss)"
  define rest where "rest = map snd (drop 20 ss)"
  have run: "my_bookings st sid =
      (st, 200, \<lparr>mb_staff_id = sid, mb_bookings = res, total_bookings = length res\<rparr>)"
    by (simp add: my_bookings_def Let_def res_def ss_def fs_def)
  have srt: "sorted (map (\<lambda>d. - reserved_at (snd d)) ss)"
    by (simp add: ss_def)
  have len: "length res \<le> 20"
    by (simp add: res_def)
  have "sorted (map (\<lambda>d. - reserved_at (snd d)) (take 20 ss))"
    using srt by (simp add: sorted_wrt_take flip: take_map)
  then have desc: "sorted_wrt (\<lambda>a b. reserved_at b \<le> reserved_at a) res"
    by (simp add: res_def sorted_wrt_map)
  have "set (take 20 ss) \<subseteq> set fs"
    using set_take_subset [of 20 ss] by (simp add: ss_def)
  then have own: "\<forall>b\<in>set res. b_staff_id b = Some sid"
    by (auto simp: res_def fs_def)
  have "mset (res @ rest) = mset (map snd ss)"
    unfolding res_def rest_def by (simp flip: map_append)
  also have "\<dots> = mset (map snd fs)"
    by (simp add: ss_def)
  finally have perm: "mset (res @ rest) = mset (map snd fs)" .
  have full: "rest \<noteq> [] \<longrightarrow> length res = 20"
    by (auto simp: rest_def res_def)
  have newest: "\<forall>b\<in>set res. \<forall>b'\<in>set rest. reserved_at b' \<le> reserved_at b"
    using sorted_wrt_take_drop [OF srt, of 20] by (auto simp: res_def rest_def)
  from perm full newest have "\<exists>rest.
      mset (res @ rest) = mset (map snd fs) \<and> (rest \<noteq> [] \<longrightarrow> length res = 20) \<and>
      (\<forall>b\<in>set res. \<forall>b'\<in>set rest. reserved_at b' \<le> reserved_at b)"
    by blast
  with len desc own show ?thesis
    unfolding run fs_def by simp
qed

text \<open>The theorem at a ledger with two bookings of the requester and one of a colleague.\<close>

theorem my_bookings_newest_first_witness:
  "my_bookings ledger_state ''cse101'' =
     (ledger_state, 200,
      \<lparr>mb_staff_id = ''cse101'',
       mb_bookings = [booking_of ''cse101'' ''S2'' 700000000, booking_of ''cse101'' ''S1'' 0],
       total_bookings = 2\<rparr>) \<and>
   fst (my_bookings ledger_state ''cse101'') = ledger_state \<and>
   length (mb_bookings (snd (snd (my_bookings ledger_state ''cse101'')))) \<le> 20 \<and>
   sorted_wrt (\<lambda>a b. reserved_at b \<le> reserved_at a)
     (mb_bookings (snd (snd (my_bookings ledger_state ''cse101''))))"
proof -
  have run: "my_bookings ledger_state ''cse101'' =
     (ledger_state, 200,
      \<lparr>mb_staff_id = ''cse101'',
       mb_bookings = [booking_of ''cse101'' ''S2'' 700000000, booking_of ''cse101'' ''S1'' 0],
       total_bookings = 2\<rparr>)"
    by (simp add: my_bookings_def ledger_state_def booking_of_def)
  from my_bookings_newest_first [of ledger_state "''cse101''"] run
  show ?thesis by blast
qed

section \<open>C10: the entry of an expired slot in the hardware feed\<close>

text \<open>
  C10 states that in the response of \<^verbatim>\<open>esp32_reserve_status\<close> a slot whose lease is
  found expired has an entry with status AVAILABLE and \<^verbatim>\<open>led_color\<close> OFF that still
  carries \<^verbatim>\<open>available\<close> false. The expired branch of the source would build that entry,
  but it is not reached: for every state with a leased slot the handler raises
  \<^verbatim>\<open>TypeError\<close> at \<^verbatim>\<open>expiry - now\<close>, answers with status 500 and no entries, and
  releases nothing, so the slot stays in the store with \<^verbatim>\<open>available\<close> false.
\<close>

theorem expired_signal_read_raises:
  assumes "s \<in> set (slots_collection st)" and "available s = Some False"
    and "reservation_time s = Some T"
  shows "esp32_reserve_status st now = (st, 500, Server_error TypeError) \<and>
         (\<exists>d\<in>set (slots_collection (fst (esp32_reserve_status st now))).
            d = s \<and> available d = Some False \<and> reservation_time d = Some T)"
  using esp32_reserve_status_raises [OF assms(1,3), of now] assms by simp

text \<open>The theorem at a lease started at time 0, read ten minutes later.\<close>

theorem expired_signal_read_raises_witness:
  "leased_slot ''S1'' 0 \<in> set (slots_collection one_lease_state) \<and>
   available (leased_slot ''S1'' 0) = Some False \<and>
   reservation_time (leased_slot ''S1'' 0) = Some 0 \<and>
   (0::int) + LEASE_TTL \<le> 600000000 \<and>
   esp32_reserve_status one_lease_state 600000000 =
     (one_lease_state, 500, Server_error TypeError) \<and>
   (\<exists>d\<in>set (slots_collection (fst (esp32_reserve_status one_lease_state 600000000))).
      d = leased_slot ''S1'' 0 \<and> available d = Some False \<and> reservation_time d = Some 0)"
proof -
  have s: "leased_slot ''S1'' 0 \<in> set (slots_collection one_lease_state)"
    by (simp add: one_lease_state_def)
  have a: "available (leased_slot ''S1'' 0) = Some False"
    by (simp add: leased_slot_def)
  have T: "reservation_time (leased_slot ''S1'' 0) = Some 0"
    by (simp add: leased_slot_def)
  have "(0::int) + LEASE_TTL \<le> 600000000"
    by (simp add: LEASE_TTL_def)
  with expired_signal_read_raises [OF s a T, of 600000000] s a T show ?thesis
    by blast
qed

end
